theory Spec2Isabelle
  imports Main
begin

section \<open>DockerMAN: the inventory refresh and command orchestration of dockerman.py\<close>

text \<open>
  The program is a Tk front end over the docker command line. Its store of known
  resources is the Treeview \<open>tree\<close>; the only other observable effects of the
  functions embedded here are the text of \<open>output_box\<close>, the records handed to
  \<open>logging\<close>, the message boxes shown, the external commands started and the
  threads started. Each becomes a field of the record \<open>state\<close>, and every source
  function that has an effect takes a state and returns the new one.

  A Python \<open>str\<close> is modelled as a \<open>string\<close>: a list of characters whose code
  points are below 256.
\<close>

subsection \<open>Python string primitives\<close>

text \<open>
  \<open>str.isspace\<close> on one character. Below code point 256 the whitespace characters of
  Python 3 are 9 to 13, 28 to 31, 32, 133 and 160.
\<close>

definition is_space :: "char \<Rightarrow> bool" where
  "is_space c =
     (let n = (of_char c :: nat)
      in (9 \<le> n \<and> n \<le> 13) \<or> (28 \<le> n \<and> n \<le> 32) \<or> n = 133 \<or> n = 160)"

text \<open>\<open>s.strip()\<close> and \<open>s.strip(chars)\<close> with a one-character argument.\<close>

definition strip_with :: "(char \<Rightarrow> bool) \<Rightarrow> string \<Rightarrow> string" where
  "strip_with p s = rev (dropWhile p (rev (dropWhile p s)))"

definition strip :: "string \<Rightarrow> string" where
  "strip s = strip_with is_space s"

definition strip_char :: "char \<Rightarrow> string \<Rightarrow> string" where
  "strip_char q s = strip_with (\<lambda>c. c = q) s"

text \<open>
  \<open>s.split(sep)\<close> with a one-character separator: every occurrence of the separator
  cuts, empty fields are kept, and the result is never empty (\<open>"".split('|')\<close> is
  \<open>['']\<close>).
\<close>

fun split_on :: "char \<Rightarrow> string \<Rightarrow> string list" where
  "split_on sep [] = [[]]"
| "split_on sep (c # cs) =
     (if c = sep then [] # split_on sep cs
      else (case split_on sep cs of
              [] \<Rightarrow> [[c]]
            | w # ws \<Rightarrow> (c # w) # ws))"

text \<open>\<open>sub in s\<close> on strings: \<open>sub\<close> occurs in \<open>s\<close> as a contiguous block.\<close>

fun str_contains :: "string \<Rightarrow> string \<Rightarrow> bool" where
  "str_contains sub [] = (sub = [])"
| "str_contains sub (c # cs) =
     (take (length sub) (c # cs) = sub \<or> str_contains sub cs)"

abbreviation newline :: char where
  "newline \<equiv> CHR 0x0A"

abbreviation bar :: char where
  "bar \<equiv> CHR ''|''"

abbreviation squote :: char where
  "squote \<equiv> CHR 0x27"

abbreviation dquote :: char where
  "dquote \<equiv> CHR 0x22"

subsection \<open>validate_docker_id\<close>

text \<open>
  The character class \<open>[a-zA-Z0-9]\<close> of the pattern (no flags are given, so the
  ranges are the ASCII ones).
\<close>

definition is_id_char :: "char \<Rightarrow> bool" where
  "is_id_char c =
     (let n = (of_char c :: nat)
      in (97 \<le> n \<and> n \<le> 122) \<or> (65 \<le> n \<and> n \<le> 90) \<or> (48 \<le> n \<and> n \<le> 57))"

text \<open>
  The anchor \<open>$\<close> of Python's \<open>re\<close> without \<open>re.MULTILINE\<close>, at offset \<open>n\<close> of the
  subject: it matches at the end of the string and also just before a newline that is
  the last character of the string.
\<close>

definition dollar_at :: "string \<Rightarrow> nat \<Rightarrow> bool" where
  "dollar_at s n = (drop n s = [] \<or> drop n s = [newline])"

text \<open>
  \<open>re.compile(r'^[a-zA-Z0-9]{12,}$').match(docker_id) is not None\<close>: \<open>match\<close> starts
  at offset 0, where \<open>^\<close> holds; the quantifier \<open>{12,}\<close> takes some number
  \<open>n \<ge> 12\<close> of characters of the class (the matcher backtracks over \<open>n\<close>), and
  \<open>$\<close> has to hold at offset \<open>n\<close>.
\<close>

definition validate_docker_id :: "string \<Rightarrow> bool" where
  "validate_docker_id docker_id =
     list_ex (\<lambda>n. list_all is_id_char (take n docker_id) \<and> dollar_at docker_id n)
       [12 ..< Suc (length docker_id)]"

text \<open>
  The spec's reading of the same pattern, as a second definition to compare with:
  twelve or more characters, every one of them alphanumeric.
\<close>

definition alnum12 :: "string \<Rightarrow> bool" where
  "alnum12 s = (12 \<le> length s \<and> list_all is_id_char s)"

subsection \<open>The state the functions act on\<close>

text \<open>
  A row of the Treeview. Every \<open>tree.insert\<close> of the program passes a \<open>values\<close>
  tuple whose first component is the type of the row (\<open>"container"\<close>, \<open>"image"\<close>,
  \<open>"network"\<close> or \<open>"project"\<close>), and the program reads it back as
  \<open>tree.item(item)['values'][0]\<close>: \<open>kind_col\<close> is that component and \<open>cols\<close> the
  rest of the tuple.
\<close>

record item =
  item_text :: string
  kind_col :: string
  cols :: "string list"
  tags :: "string list"

datatype level = DEBUG | INFO | WARNING | ERROR

datatype box = Showerror | Showwarning | Showinfo

text \<open>
  A thread the program starts: the \<open>task\<close> closure of \<open>list_docker_items\<close>, or an
  operation handed to \<open>run_with_progress\<close>.
\<close>

datatype job =
    List_docker_items_task string string
  | Copy_container_thread string string

record state =
  tree :: "item list"
  output_box :: string
  logged :: "(level \<times> string) list"
  issued :: "string list"
  dialogs :: "(box \<times> string \<times> string) list"
  threads :: "job list"
  status_label :: string
  status_indicator :: string

text \<open>
  What starting an external process gives: it exits with its standard output, its
  standard error and a return code, or the launch raises an exception whose \<open>str\<close> is
  kept. The container runtime is a black box: it is a parameter \<open>env\<close> that answers a
  command line, given the command lines started before it, so that the same command may
  be answered differently at different moments.
\<close>

datatype proc_result = Exited string string int | Raised string

type_synonym runtime = "string list \<Rightarrow> string \<Rightarrow> proc_result"

definition logging :: "level \<Rightarrow> string \<Rightarrow> state \<Rightarrow> state" where
  "logging lv msg st = st\<lparr>logged := logged st @ [(lv, msg)]\<rparr>"

definition messagebox :: "box \<Rightarrow> string \<Rightarrow> string \<Rightarrow> state \<Rightarrow> state" where
  "messagebox b title msg st = st\<lparr>dialogs := dialogs st @ [(b, title, msg)]\<rparr>"

definition box_insert :: "string \<Rightarrow> state \<Rightarrow> state" where
  "box_insert s st = st\<lparr>output_box := output_box st @ s\<rparr>"

definition tree_insert :: "string \<Rightarrow> string \<Rightarrow> string list \<Rightarrow> string list \<Rightarrow> state \<Rightarrow> state" where
  "tree_insert txt kind vals tgs st =
     st\<lparr>tree := tree st @ [\<lparr>item_text = txt, kind_col = kind, cols = vals, tags = tgs\<rparr>]\<rparr>"

definition start_thread :: "job \<Rightarrow> state \<Rightarrow> state" where
  "start_thread j st = st\<lparr>threads := threads st @ [j]\<rparr>"

subsection \<open>run_docker_command, is_docker_running, execute_command\<close>

text \<open>
  \<open>logging.exception\<close> writes at level ERROR (the traceback it adds is not kept).
\<close>

definition run_docker_command :: "runtime \<Rightarrow> string \<Rightarrow> state \<Rightarrow> (string \<times> string) \<times> state" where
  "run_docker_command env command st =
     (let st1 = logging DEBUG (''Executing command: '' @ command) st;
          st2 = st1\<lparr>issued := issued st1 @ [command]\<rparr>
      in case env (issued st) command of
           Exited stdout stderr returncode \<Rightarrow>
             ((stdout, stderr),
              (if returncode \<noteq> 0
               then logging ERROR (''Command failed: '' @ command @ [newline] @ ''Error: '' @ strip stderr) st2
               else logging INFO (''Command succeeded: '' @ command) st2))
         | Raised e \<Rightarrow>
             (([], ''Error: '' @ e),
              logging ERROR (''Exception while executing command: '' @ command @ [newline] @ ''Error: '' @ e) st2))"

text \<open>
  \<open>subprocess.run\<close> is called without \<open>check=True\<close>, so it raises only when the
  process cannot be launched; the return code of a process that ran is not looked at.
\<close>

definition is_docker_running :: "runtime \<Rightarrow> state \<Rightarrow> bool \<times> state" where
  "is_docker_running env st =
     (let st1 = st\<lparr>issued := issued st @ [''docker info'']\<rparr>
      in case env (issued st) ''docker info'' of
           Exited stdout stderr returncode \<Rightarrow> (True, logging DEBUG ''Docker is running.'' st1)
         | Raised e \<Rightarrow> (False, logging DEBUG ''Docker is not running.'' st1))"

definition execute_command :: "runtime \<Rightarrow> string \<Rightarrow> state \<Rightarrow> state" where
  "execute_command env command st =
     (let ((stdout, stderr), st1) = run_docker_command env command st;
          st2 = box_insert (''$ '' @ command @ [newline]) st1;
          st3 = (if stdout \<noteq> [] then box_insert (stdout @ [newline]) st2 else st2);
          st4 = (if stderr \<noteq> [] then box_insert (''Error: '' @ stderr @ [newline]) st3 else st3)
      in if stderr \<noteq> []
         then logging ERROR (''Command '' @ [squote] @ command @ [squote] @ '' failed with error: '' @ strip stderr) st4
         else logging INFO (''Command '' @ [squote] @ command @ [squote] @ '' executed successfully.'') st4)"

subsection \<open>update_docker_status\<close>

text \<open>One pass of the body of the \<open>while True\<close> loop (the \<open>time.sleep(5)\<close> apart).\<close>

definition update_docker_status_tick :: "runtime \<Rightarrow> state \<Rightarrow> state" where
  "update_docker_status_tick env st =
     (let (status, st1) = is_docker_running env st
      in if status
         then st1\<lparr>status_indicator := ''green'', status_label := ''Docker Status: Running''\<rparr>
         else st1\<lparr>status_indicator := ''red'', status_label := ''Docker Status: Not Running''\<rparr>)"

text \<open>The loop never ends; \<open>n\<close> is the number of passes looked at.\<close>

fun update_docker_status :: "nat \<Rightarrow> runtime \<Rightarrow> state \<Rightarrow> state" where
  "update_docker_status 0 env st = st"
| "update_docker_status (Suc n) env st = update_docker_status n env (update_docker_status_tick env st)"

subsection \<open>list_docker_items and what it calls\<close>

definition get_container_size :: "runtime \<Rightarrow> string \<Rightarrow> state \<Rightarrow> string \<times> state" where
  "get_container_size env container_id st =
     (let ((size_output, stderr), st1) =
            run_docker_command env
              (''docker ps -s -a --filter id='' @ container_id @ '' --format '' @ [squote]
                 @ ''{{.Size}}'' @ [squote]) st
      in if stderr \<noteq> [] \<or> strip size_output = []
         then (''N/A'',
               logging ERROR (''Failed to get size for container '' @ [squote] @ container_id
                  @ [squote] @ '': '' @ strip stderr) st1)
         else (strip size_output, st1))"

text \<open>
  The loop that fills the dictionary \<open>stats\<close>: a line of exactly three fields stores
  \<open>(cpu, mem)\<close> under the container id, any other line is passed over.
\<close>

fun parse_stats :: "string list \<Rightarrow> (string \<rightharpoonup> string \<times> string) \<Rightarrow> (string \<rightharpoonup> string \<times> string)" where
  "parse_stats [] stats = stats"
| "parse_stats (line # rest) stats =
     (let parts = split_on bar line
      in if length parts = 3
         then parse_stats rest (stats(parts ! 0 \<mapsto> (parts ! 1, parts ! 2)))
         else parse_stats rest stats)"

definition stats_get :: "(string \<rightharpoonup> string \<times> string) \<Rightarrow> string \<Rightarrow> string \<times> string" where
  "stats_get stats container_id =
     (case stats container_id of None \<Rightarrow> (''N/A'', ''N/A'') | Some v \<Rightarrow> v)"

text \<open>
  The body of \<open>for line in lines\<close>. Each \<open>continue\<close> of the source returns the state
  as it is; \<open>parts[i]\<close> is read only under the length test that guards it.
\<close>

definition process_line :: "runtime \<Rightarrow> string \<Rightarrow> (string \<rightharpoonup> string \<times> string) \<Rightarrow> string \<Rightarrow> state \<Rightarrow> state" where
  "process_line env item_type stats line st =
     (if line = [] then st
      else
        let parts = split_on bar line
        in if item_type = ''container'' then
             (if length parts < 6 then st
              else
                let container_id = parts ! 0;
                    image = parts ! 1;
                    command_str = strip_char dquote (parts ! 2);
                    created_at = parts ! 3;
                    status_full = parts ! 4;
                    name = parts ! 5;
                    is_running = str_contains ''Up'' status_full;
                    (cpu, mem) = stats_get stats container_id;
                    (size, st1) = get_container_size env container_id st
                in tree_insert container_id ''container''
                     [name, (if is_running then ''Running'' else ''Stopped''), image,
                      command_str, created_at, cpu, mem, size]
                     [if is_running then ''running'' else ''stopped''] st1)
           else if item_type = ''image'' then
             (if length parts < 5 then st
              else
                let repository = parts ! 0;
                    tag = parts ! 1;
                    image_id = parts ! 2;
                    created_since = parts ! 3;
                    size = parts ! 4;
                    full_image_name = repository @ '':'' @ tag
                in tree_insert image_id ''image''
                     [''-'', full_image_name, ''-'', created_since, ''-'', ''-'', size]
                     [''image''] st)
           else if item_type = ''network'' then
             (if length parts < 4 then st
              else
                let network_id = parts ! 0;
                    name = parts ! 1;
                    driver = parts ! 2;
                    scope = parts ! 3
                in tree_insert network_id ''network''
                     [''-'', name, driver, scope, ''-'', ''-'', ''-'']
                     [''network''] st)
           else st)"

fun process_lines :: "runtime \<Rightarrow> string \<Rightarrow> (string \<rightharpoonup> string \<times> string) \<Rightarrow> string list \<Rightarrow> state \<Rightarrow> state" where
  "process_lines env item_type stats [] st = st"
| "process_lines env item_type stats (line # rest) st =
     process_lines env item_type stats rest (process_line env item_type stats line st)"

text \<open>\<open>Clear Treeview except projects\<close>: every row whose type is not \<open>"project"\<close> is deleted.\<close>

definition clear_except_projects :: "state \<Rightarrow> state" where
  "clear_except_projects st = st\<lparr>tree := filter (\<lambda>it. kind_col it = ''project'') (tree st)\<rparr>"

definition stats_command :: string where
  \<open>stats_command = ''docker stats --no-stream --format "{{.Container}}|{{.CPUPerc}}|{{.MemUsage}}"''\<close>

definition fetch_stats :: "runtime \<Rightarrow> string \<Rightarrow> state \<Rightarrow> (string \<rightharpoonup> string \<times> string) \<times> state" where
  "fetch_stats env item_type st =
     (if item_type = ''container''
      then (let ((stats_output, ignored), st1) = run_docker_command env stats_command st
            in (parse_stats (split_on newline (strip stats_output)) Map.empty, st1))
      else (Map.empty, st))"

text \<open>
  The closure \<open>task\<close> of \<open>list_docker_items(command, item_type)\<close>, the body of the
  thread. The four \<open>tree.tag_configure\<close> calls at its end set row colours only and are
  left out.
\<close>

definition task :: "runtime \<Rightarrow> string \<Rightarrow> string \<Rightarrow> state \<Rightarrow> state" where
  "task env command item_type st =
     (let ((output, stderr), st1) = run_docker_command env command st
      in if stderr \<noteq> []
         then execute_command env (''# Error listing '' @ item_type @ ''s: '' @ stderr) st1
         else
           let st2 = clear_except_projects st1;
               (stats, st3) = fetch_stats env item_type st2;
               lines = split_on newline (strip output)
           in if lines = [] \<or> (length lines = 1 \<and> lines ! 0 = []) then st3
              else process_lines env item_type stats lines st3)"

definition list_docker_items :: "string \<Rightarrow> string \<Rightarrow> state \<Rightarrow> state" where
  "list_docker_items command item_type st = start_thread (List_docker_items_task command item_type) st"

definition containers_command :: string where
  \<open>containers_command = ''docker ps -a --format "{{.ID}}|{{.Image}}|{{.Command}}|{{.CreatedAt}}|{{.Status}}|{{.Names}}"''\<close>

definition images_command :: string where
  \<open>images_command = ''docker images --format "{{.Repository}}|{{.Tag}}|{{.ID}}|{{.CreatedSince}}|{{.Size}}"''\<close>

definition networks_command :: string where
  \<open>networks_command = ''docker network ls --format "{{.ID}}|{{.Name}}|{{.Driver}}|{{.Scope}}"''\<close>

definition refresh_containers :: "state \<Rightarrow> state" where
  "refresh_containers st = list_docker_items containers_command ''container'' st"

definition refresh_images :: "state \<Rightarrow> state" where
  "refresh_images st = list_docker_items images_command ''image'' st"

definition refresh_networks :: "state \<Rightarrow> state" where
  "refresh_networks st = list_docker_items networks_command ''network'' st"

subsection \<open>selected_item\<close>

text \<open>
  \<open>focus\<close> is the row \<open>tree.focus()\<close> designates, if there is one. The source returns
  the pair \<open>(None, None)\<close> where the model returns \<open>None\<close>. The log record of
  \<open>validate_docker_id\<close> is written here, where the function is called.
\<close>

definition selected_item :: "item option \<Rightarrow> state \<Rightarrow> (string \<times> string) option \<times> state" where
  "selected_item focus st =
     (case focus of
        None \<Rightarrow>
          (None, messagebox Showwarning ''No Selection'' ''Please select an item from the list.'' st)
      | Some it \<Rightarrow>
          let item_id = item_text it;
              item_type = kind_col it;
              is_valid = validate_docker_id item_id;
              st1 = logging DEBUG (''Validating Docker ID '' @ [squote] @ item_id @ [squote] @ '': ''
                      @ (if is_valid then ''Valid'' else ''Invalid'')) st
          in if \<not> is_valid \<and> item_type \<noteq> ''project''
             then (None, messagebox Showerror ''Invalid ID''
                     (''The selected '' @ item_type @ '' ID '' @ [squote] @ item_id @ [squote]
                        @ '' is invalid.'') st1)
             else (Some (item_id, item_type),
                   logging DEBUG (''Selected item - ID: '' @ item_id @ '', Type: '' @ item_type) st1))"

subsection \<open>rebuild_container_thread\<close>

definition rebuild_commands :: "string \<Rightarrow> string \<Rightarrow> string list" where
  "rebuild_commands container_id image_name =
     [''docker stop '' @ container_id,
      ''docker rm '' @ container_id,
      ''docker run -d --name '' @ container_id @ '' '' @ image_name]"

text \<open>\<open>for cmd in commands: execute_command(cmd, output_box)\<close>\<close>

fun execute_all :: "runtime \<Rightarrow> string list \<Rightarrow> state \<Rightarrow> state" where
  "execute_all env [] st = st"
| "execute_all env (cmd # rest) st = execute_all env rest (execute_command env cmd st)"

definition rebuild_container_thread :: "runtime \<Rightarrow> string \<Rightarrow> string \<Rightarrow> state \<Rightarrow> state" where
  "rebuild_container_thread env container_id image_name st =
     refresh_images (refresh_containers
       (execute_all env (rebuild_commands container_id image_name) st))"

subsection \<open>copy_container and copy_container_thread\<close>

definition names_command :: string where
  \<open>names_command = ''docker ps -a --format "{{.Names}}"''\<close>

text \<open>
  \<open>answer\<close> is what \<open>simpledialog.askstring\<close> returns when it is called: the text
  entered, or \<open>None\<close> when the dialog is cancelled. \<open>run_with_progress\<close> opens the
  progress dialog and starts the thread; the thread is what is kept.
\<close>

definition copy_container :: "runtime \<Rightarrow> item option \<Rightarrow> string option \<Rightarrow> state \<Rightarrow> state" where
  "copy_container env focus answer st =
     (let (sel, st1) = selected_item focus st
      in case sel of
           None \<Rightarrow> st1
         | Some (container_id, item_type) \<Rightarrow>
             if container_id = [] then st1
             else
               (case answer of
                  None \<Rightarrow>
                    messagebox Showwarning ''Input Required''
                      ''Copy canceled. No container name provided.'' st1
                | Some new_container_name \<Rightarrow>
                    if new_container_name = []
                    then messagebox Showwarning ''Input Required''
                           ''Copy canceled. No container name provided.'' st1
                    else if strip new_container_name = []
                    then messagebox Showerror ''Invalid Input''
                           ''Container name cannot be empty.'' st1
                    else
                      let ((existing_containers, ignored), st2) =
                            run_docker_command env names_command st1;
                          existing_names = split_on newline (strip existing_containers)
                      in if new_container_name \<in> set existing_names
                         then messagebox Showerror ''Name Conflict''
                                (''A container with the name '' @ [squote] @ new_container_name
                                   @ [squote] @ '' already exists.'') st2
                         else start_thread
                                (Copy_container_thread container_id new_container_name) st2))"

definition copy_container_thread :: "runtime \<Rightarrow> string \<Rightarrow> string \<Rightarrow> state \<Rightarrow> state" where
  "copy_container_thread env container_id new_container_name st =
     (let image_name = ''backup_'' @ container_id;
          st1 = execute_command env (''docker commit '' @ container_id @ '' '' @ image_name) st;
          st2 = execute_command env
                  (''docker create --name '' @ new_container_name @ '' '' @ image_name) st1;
          st3 = refresh_images (refresh_containers st2);
          st4 = messagebox Showinfo ''Copy Completed''
                  (''Container '' @ [squote] @ container_id @ [squote] @ '' has been copied to ''
                     @ [squote] @ new_container_name @ [squote] @ '' without starting it.'') st3
      in logging INFO (''Container '' @ [squote] @ container_id @ [squote] @ '' copied to ''
           @ [squote] @ new_container_name @ [squote] @ '' as image '' @ [squote] @ image_name
           @ [squote] @ ''.'') st4)"

subsection \<open>Reading aids for the statements\<close>

text \<open>What \<open>run_docker_command\<close> returns for a result of the process: \<open>(stdout, stderr)\<close>.\<close>

definition returned :: "proc_result \<Rightarrow> string \<times> string" where
  "returned r = (case r of Exited stdout stderr returncode \<Rightarrow> (stdout, stderr)
                         | Raised e \<Rightarrow> ([], ''Error: '' @ e))"

text \<open>The rows of one type held in the Treeview.\<close>

definition records_of_kind :: "string \<Rightarrow> state \<Rightarrow> item list" where
  "records_of_kind k st = filter (\<lambda>it. kind_col it = k) (tree st)"

text \<open>
  What a step tells anyone between a state and a later one: the log records added, the
  message boxes shown, and the text added to the output box.
\<close>

definition reports :: "state \<Rightarrow> state \<Rightarrow> string list" where
  "reports st st' =
     map snd (drop (length (logged st)) (logged st'))
     @ map (\<lambda>d. snd (snd d)) (drop (length (dialogs st)) (dialogs st'))
     @ (if output_box st' = output_box st then []
        else [drop (length (output_box st)) (output_box st')])"

text \<open>The number of fields the branch of \<open>process_line\<close> for a type asks for.\<close>

definition schema_fields :: "string \<Rightarrow> nat" where
  "schema_fields item_type =
     (if item_type = ''container'' then 6
      else if item_type = ''image'' then 5
      else if item_type = ''network'' then 4
      else 0)"

text \<open>
  The result the runtime gives to the \<open>i\<close>-th command of a list run one after the
  other, \<open>hist\<close> being the commands started before the list.
\<close>

definition step_result :: "runtime \<Rightarrow> string list \<Rightarrow> string list \<Rightarrow> nat \<Rightarrow> proc_result" where
  "step_result env hist cmds i = env (hist @ take i cmds) (cmds ! i)"

subsection \<open>Concrete states and runtimes\<close>

definition st0 :: state where
  "st0 = \<lparr>tree = [], output_box = [], logged = [], issued = [], dialogs = [], threads = [],
          status_label = ''Docker Status: Checking...'', status_indicator = ''grey''\<rparr>"

definition image_row :: item where
  "image_row = \<lparr>item_text = ''0123456789ab'', kind_col = ''image'',
                 cols = [''-'', ''nginx:latest'', ''-'', ''2 weeks ago'', ''-'', ''-'', ''187MB''],
                 tags = [''image'']\<rparr>"

definition project_row :: item where
  "project_row = \<lparr>item_text = ''demo'', kind_col = ''project'',
                   cols = [''-'', ''-'', ''-'', ''-'', ''-'', ''-'', ''-'', ''-''],
                   tags = [''project'']\<rparr>"

definition container_row :: item where
  "container_row = \<lparr>item_text = ''abc123456789'', kind_col = ''container'',
       cols = [''web1'', ''Running'', ''nginx:latest'', ''nginx -g daemon off;'', ''2024-01-01'',
               ''2.3%'', ''15MiB / 1GiB'', ''12MB''],
       tags = [''running'']\<rparr>"

definition st_rows :: state where
  "st_rows = st0\<lparr>tree := [project_row, image_row]\<rparr>"

text \<open>A runtime that lists one running container, with its statistics and its size.\<close>

definition env_one :: runtime where
  \<open>env_one hist cmd =
     (if cmd = containers_command
      then Exited (''abc123456789|nginx:latest|"nginx -g daemon off;"|2024-01-01|Up 3 hours|web1'' @ [newline]) [] 0
      else if cmd = stats_command
      then Exited (''abc123456789|2.3%|15MiB / 1GiB'' @ [newline]) [] 0
      else if cmd = names_command
      then Exited (''web'' @ [newline] @ ''db'' @ [newline]) [] 0
      else Exited (''12MB'' @ [newline]) [] 0)\<close>

text \<open>A runtime whose container listing carries the identifier \<open>short1\<close>.\<close>

definition env_short_id :: runtime where
  "env_short_id hist cmd =
     (if cmd = containers_command
      then Exited (''short1|nginx|sh|2024-01-01|Exited (0)|web1'' @ [newline]) [] 0
      else Exited [] [] 0)"

text \<open>A runtime whose daemon is down: every command exits with code 1 and a message.\<close>

definition env_down :: runtime where
  "env_down hist cmd = Exited [] ''Cannot connect to the Docker daemon'' 1"

text \<open>A runtime whose commands exit with code 1 and write nothing at all.\<close>

definition env_silent :: runtime where
  "env_silent hist cmd = Exited [] [] 1"

subsection \<open>The thread of list_docker_items, one step at a time\<close>









text \<open>
  The identifiers a listing gives rise to: one for each non-empty line that has the
  fields its branch of \<open>process_line\<close> asks for, in the order of the lines. The
  identifier is field 2 of an image line and field 0 of a container or network line.
\<close>

definition id_index :: "string \<Rightarrow> nat" where
  "id_index item_type = (if item_type = ''image'' then 2 else 0)"

definition listed_ids :: "string \<Rightarrow> string list \<Rightarrow> string list" where
  "listed_ids item_type lines =
     (if item_type = ''container'' \<or> item_type = ''image'' \<or> item_type = ''network''
      then map (\<lambda>l. split_on bar l ! id_index item_type)
             (filter (\<lambda>l. l \<noteq> [] \<and> schema_fields item_type \<le> length (split_on bar l)) lines)
      else [])"




subsection \<open>Lemmas on the string primitives\<close>

lemma split_on_nonempty: "split_on sep s \<noteq> []"
  by (induction s) (auto split: list.splits)

lemma str_contains_iff: "str_contains sub s \<longleftrightarrow> (\<exists>pre suf. s = pre @ sub @ suf)"
proof (induction s)
  case Nil
  then show ?case by auto
next
  case (Cons c cs)
  show ?case
  proof
    assume "str_contains sub (c # cs)"
    then consider "take (length sub) (c # cs) = sub" | "str_contains sub cs" by auto
    then show "\<exists>pre suf. c # cs = pre @ sub @ suf"
    proof cases
      case 1
      then have "c # cs = [] @ sub @ drop (length sub) (c # cs)"
        by (metis append_Nil append_take_drop_id)
      then show ?thesis by blast
    next
      case 2
      with Cons.IH obtain pre suf where "cs = pre @ sub @ suf" by auto
      then have "c # cs = (c # pre) @ sub @ suf" by simp
      then show ?thesis by blast
    qed
  next
    assume "\<exists>pre suf. c # cs = pre @ sub @ suf"
    then obtain pre suf where eq: "c # cs = pre @ sub @ suf" by auto
    show "str_contains sub (c # cs)"
    proof (cases pre)
      case Nil
      with eq have "take (length sub) (c # cs) = sub" by simp
      then show ?thesis by simp
    next
      case (Cons p ps)
      with eq have "cs = ps @ sub @ suf" by simp
      with Cons.IH have "str_contains sub cs" by blast
      then show ?thesis by simp
    qed
  qed
qed

lemma validate_docker_id_iff:
  "validate_docker_id s \<longleftrightarrow> (\<exists>p. alnum12 p \<and> (s = p \<or> s = p @ [newline]))"
proof
  assume "validate_docker_id s"
  then obtain n where n: "12 \<le> n" "n \<le> length s"
    and cls: "list_all is_id_char (take n s)" and d: "dollar_at s n"
    by (auto simp: validate_docker_id_def list_ex_iff)
  have p: "alnum12 (take n s)" using n cls by (simp add: alnum12_def)
  have "s = take n s @ drop n s" by simp
  with d have "s = take n s \<or> s = take n s @ [newline]"
    unfolding dollar_at_def by (metis append_Nil2)
  with p show "\<exists>p. alnum12 p \<and> (s = p \<or> s = p @ [newline])" by blast
next
  assume "\<exists>p. alnum12 p \<and> (s = p \<or> s = p @ [newline])"
  then obtain p where p: "alnum12 p" and s: "s = p \<or> s = p @ [newline]" by blast
  from s have "list_all is_id_char (take (length p) s) \<and> dollar_at s (length p)
     \<and> length p \<le> length s"
    using p by (auto simp: alnum12_def dollar_at_def)
  moreover have "12 \<le> length p" using p by (simp add: alnum12_def)
  ultimately have "\<exists>n \<in> set [12 ..< Suc (length s)].
      list_all is_id_char (take n s) \<and> dollar_at s n"
    by (intro bexI [of _ "length p"]) auto
  then show "validate_docker_id s"
    unfolding validate_docker_id_def list_ex_iff .
qed

subsection \<open>What each function leaves alone\<close>

lemma run_docker_command_fst:
  "fst (run_docker_command env c st) = returned (env (issued st) c)"
  by (simp add: run_docker_command_def returned_def Let_def split: proc_result.splits)

lemma run_docker_command_frame:
  "tree (snd (run_docker_command env c st)) = tree st"
  "output_box (snd (run_docker_command env c st)) = output_box st"
  "dialogs (snd (run_docker_command env c st)) = dialogs st"
  "threads (snd (run_docker_command env c st)) = threads st"
  "issued (snd (run_docker_command env c st)) = issued st @ [c]"
  by (simp_all add: run_docker_command_def logging_def Let_def split: proc_result.splits)

lemma run_docker_command_logged:
  "\<exists>new. logged (snd (run_docker_command env c st)) = logged st @ new"
  by (simp add: run_docker_command_def logging_def Let_def split: proc_result.splits)

lemma run_docker_command_nonzero_logged:
  assumes "env (issued st) c = Exited out err rc" and "rc \<noteq> 0"
  shows "(ERROR, ''Command failed: '' @ c @ [newline] @ ''Error: '' @ strip err)
           \<in> set (logged (snd (run_docker_command env c st)))"
  using assms by (simp add: run_docker_command_def logging_def Let_def)

lemma execute_command_frame:
  "tree (execute_command env c st) = tree st"
  "dialogs (execute_command env c st) = dialogs st"
  "threads (execute_command env c st) = threads st"
  "issued (execute_command env c st) = issued st @ [c]"
  using run_docker_command_frame [of env c st]
  by (simp_all add: execute_command_def box_insert_def logging_def Let_def case_prod_beta)

lemma execute_command_box:
  "output_box (execute_command env c st) =
     output_box st @ ''$ '' @ c @ [newline]
       @ (if fst (returned (env (issued st) c)) \<noteq> []
          then fst (returned (env (issued st) c)) @ [newline] else [])
       @ (if snd (returned (env (issued st) c)) \<noteq> []
          then ''Error: '' @ snd (returned (env (issued st) c)) @ [newline] else [])"
  using run_docker_command_frame(2) [of env c st] run_docker_command_fst [of env c st]
  by (simp_all add: execute_command_def box_insert_def logging_def Let_def case_prod_beta)

lemma execute_command_logged:
  "\<exists>new. logged (execute_command env c st) = logged st @ new"
proof -
  obtain new where "logged (snd (run_docker_command env c st)) = logged st @ new"
    using run_docker_command_logged by blast
  then show ?thesis
    by (simp add: execute_command_def box_insert_def logging_def Let_def case_prod_beta)
qed

lemma execute_command_error_logged:
  assumes "snd (returned (env (issued st) c)) \<noteq> []"
  shows "(ERROR, ''Command '' @ [squote] @ c @ [squote] @ '' failed with error: ''
             @ strip (snd (returned (env (issued st) c))))
           \<in> set (logged (execute_command env c st))"
  using assms run_docker_command_fst [of env c st]
  by (simp_all add: execute_command_def box_insert_def logging_def Let_def case_prod_beta)

lemma execute_command_nonzero_logged:
  assumes "env (issued st) c = Exited out err rc" and "rc \<noteq> 0"
  shows "(ERROR, ''Command failed: '' @ c @ [newline] @ ''Error: '' @ strip err)
           \<in> set (logged (execute_command env c st))"
  using run_docker_command_nonzero_logged [of env st c out err rc] assms
  by (simp add: execute_command_def box_insert_def logging_def Let_def case_prod_beta)

section \<open>The claims\<close>

subsection \<open>C1: a listing that fails by its exit code alone clears the rows\<close>

text \<open>
  The case of the test that \<open>task\<close> makes. For a refresh of any type, when
  \<open>run_docker_command\<close> returns a non-empty \<open>stderr\<close> for the listing command (the
  process wrote to its standard error, or could not be launched), the thread returns
  before the Treeview is touched: every row, of every type, is as before, and the output
  box receives the line \<open>$ # Error listing <type>s: <stderr>\<close>.
\<close>

lemma stderr_refresh_keeps_rows:
  assumes "snd (returned (env (issued st) command)) = err" and "err \<noteq> []"
  shows "tree (task env command item_type st) = tree st
       \<and> (\<exists>more. output_box (task env command item_type st) =
             output_box st @ ''$ # Error listing '' @ item_type @ ''s: '' @ err @ [newline] @ more)"
proof -
  obtain st1 where st1: "st1 = snd (run_docker_command env command st)" by simp
  have ret: "snd (fst (run_docker_command env command st)) = err"
    using assms(1) by (simp add: run_docker_command_fst)
  have t: "task env command item_type st =
             execute_command env (''# Error listing '' @ item_type @ ''s: '' @ err) st1"
    using ret assms(2) st1 by (simp add: task_def case_prod_beta)
  have "tree st1 = tree st" and box: "output_box st1 = output_box st"
    using st1 by (simp_all add: run_docker_command_frame)
  then have "tree (task env command item_type st) = tree st"
    using t by (simp add: execute_command_frame)
  moreover have "\<exists>more. output_box (task env command item_type st) =
             output_box st @ ''$ # Error listing '' @ item_type @ ''s: '' @ err @ [newline] @ more"
    unfolding t execute_command_box box by simp
  ultimately show ?thesis by blast
qed

lemma stderr_refresh_keeps_rows_example:
  "tree (task env_down containers_command ''container'' st_rows) = [project_row, image_row]"
  using stderr_refresh_keeps_rows
    [of env_down st_rows containers_command "''Cannot connect to the Docker daemon''" "''container''"]
  by (simp add: env_down_def returned_def st_rows_def st0_def)

text \<open>
  C1. The claim asks that a listing command that fails leaves the stored records as
  they were and that the failure is shown. A listing of the images that exits with
  code 1 and writes nothing to its standard error has failed, and \<open>run_docker_command\<close>
  logs it as \<open>Command failed\<close>; \<open>task\<close> tests \<open>stderr\<close> alone, takes the run for
  a success with no line, and deletes the image row that was stored. Nothing is written
  to the output box and no message box is shown.
\<close>

theorem listing_exit_failure_clears_rows:
  "records_of_kind ''image'' st_rows = [image_row]
   \<and> records_of_kind ''image'' (task env_silent images_command ''image'' st_rows) = []
   \<and> output_box (task env_silent images_command ''image'' st_rows) = output_box st_rows
   \<and> dialogs (task env_silent images_command ''image'' st_rows) = dialogs st_rows
   \<and> logged (task env_silent images_command ''image'' st_rows) =
       [(DEBUG, ''Executing command: '' @ images_command),
        (ERROR, ''Command failed: '' @ images_command @ [newline] @ ''Error: '')]"
  by code_simp

subsection \<open>C2: identifiers are not checked when a listing is stored\<close>

text \<open>
  C2. The claim asks that a listed record be stored only when its identifier passes
  \<open>validate_docker_id\<close>. \<open>task\<close> never calls the validator: a container line whose
  identifier is \<open>short1\<close> is stored as a row, although the validator rejects
  \<open>short1\<close>.
\<close>

theorem refresh_stores_invalid_id:
  "map item_text (tree (task env_short_id containers_command ''container'' st0)) = [''short1'']
   \<and> \<not> validate_docker_id ''short1''"
  by code_simp

subsection \<open>C7: the liveness probe does not look at the return code\<close>

lemma is_docker_running_iff:
  "fst (is_docker_running env st)
     \<longleftrightarrow> (\<exists>out err rc. env (issued st) ''docker info'' = Exited out err rc)"
  by (simp add: is_docker_running_def Let_def split: proc_result.splits)

text \<open>
  C7. The claim asks that a probe that exits with a non-zero code gives "not running".
  With a daemon that is down, \<open>docker info\<close> exits with code 1; \<open>is_docker_running\<close>
  returns \<open>True\<close> all the same and the pass of the poller shows "Running".
\<close>

theorem probe_nonzero_exit_reports_running:
  "fst (is_docker_running env_down st0) = True
   \<and> status_label (update_docker_status_tick env_down st0) = ''Docker Status: Running''
   \<and> status_indicator (update_docker_status_tick env_down st0) = ''green''"
  by (simp add: is_docker_running_def update_docker_status_tick_def env_down_def logging_def)

subsection \<open>C10: the validator accepts a trailing newline\<close>

text \<open>
  C10. Every string of twelve or more alphanumeric characters is accepted by
  \<open>validate_docker_id\<close>, and so is the same string followed by one newline, which is
  not made of alphanumeric characters only: acceptance does not mean that the string is
  alphanumeric.
\<close>

theorem validator_accepts_trailing_newline:
  assumes "alnum12 s"
  shows "validate_docker_id s \<and> validate_docker_id (s @ [newline])
       \<and> \<not> list_all is_id_char (s @ [newline])"
proof -
  have "validate_docker_id s" and "validate_docker_id (s @ [newline])"
    using assms validate_docker_id_iff by blast+
  moreover have "\<not> is_id_char newline" by (simp add: is_id_char_def)
  ultimately show ?thesis by simp
qed

theorem validator_accepts_trailing_newline_witness:
  "alnum12 ''abc123def456'' \<and> validate_docker_id (''abc123def456'' @ [newline])
   \<and> \<not> list_all is_id_char (''abc123def456'' @ [newline])"
proof -
  have h: "alnum12 ''abc123def456''" by (simp add: alnum12_def is_id_char_def)
  show ?thesis using h validator_accepts_trailing_newline [OF h] by simp
qed

subsection \<open>Lemmas on the line loop\<close>

lemma get_container_size_frame:
  "tree (snd (get_container_size env cid st)) = tree st"
  using run_docker_command_frame(1) [of env _ st]
  by (simp add: get_container_size_def logging_def Let_def case_prod_beta)

lemma process_line_short:
  assumes "length (split_on bar line) < schema_fields item_type"
  shows "process_line env item_type stats line st = st"
  using assms by (simp add: process_line_def schema_fields_def Let_def split: if_splits)

lemma process_line_rows:
  "\<exists>new. tree (process_line env item_type stats line st) = tree st @ new
         \<and> list_all (\<lambda>r. kind_col r = item_type \<and> kind_col r \<noteq> ''project'') new"
  by (simp add: process_line_def tree_insert_def get_container_size_frame Let_def case_prod_beta)

lemma process_lines_rows:
  "\<exists>new. tree (process_lines env item_type stats lines st) = tree st @ new
         \<and> list_all (\<lambda>r. kind_col r = item_type \<and> kind_col r \<noteq> ''project'') new"
proof (induction lines arbitrary: st)
  case Nil
  then show ?case by simp
next
  case (Cons line rest)
  obtain new1 where n1: "tree (process_line env item_type stats line st) = tree st @ new1"
      "list_all (\<lambda>r. kind_col r = item_type \<and> kind_col r \<noteq> ''project'') new1"
    using process_line_rows by blast
  obtain new2 where n2: "tree (process_lines env item_type stats rest
        (process_line env item_type stats line st)) =
        tree (process_line env item_type stats line st) @ new2"
      "list_all (\<lambda>r. kind_col r = item_type \<and> kind_col r \<noteq> ''project'') new2"
    using Cons.IH by blast
  have "tree (process_lines env item_type stats (line # rest) st) = tree st @ (new1 @ new2)"
    using n1(1) n2(1) by simp
  moreover have "list_all (\<lambda>r. kind_col r = item_type \<and> kind_col r \<noteq> ''project'') (new1 @ new2)"
    using n1(2) n2(2) by simp
  ultimately show ?case by blast
qed

lemma fetch_stats_frame:
  "tree (snd (fetch_stats env item_type st)) = tree st"
  by (simp add: fetch_stats_def run_docker_command_frame Let_def case_prod_beta)

lemma task_success_rows:
  assumes "snd (returned (env (issued st) command)) = []"
  shows "\<exists>new. tree (task env command item_type st) = records_of_kind ''project'' st @ new
         \<and> list_all (\<lambda>r. kind_col r = item_type \<and> kind_col r \<noteq> ''project'') new"
proof -
  define st1 where "st1 = snd (run_docker_command env command st)"
  define st2 where "st2 = clear_except_projects st1"
  define st3 where "st3 = snd (fetch_stats env item_type st2)"
  define stats where "stats = fst (fetch_stats env item_type st2)"
  define lines where "lines = split_on newline (strip (fst (fst (run_docker_command env command st))))"
  have ok: "snd (fst (run_docker_command env command st)) = []"
    using assms by (simp add: run_docker_command_fst)
  have t3: "tree st3 = records_of_kind ''project'' st"
    by (simp add: st3_def st2_def st1_def fetch_stats_frame clear_except_projects_def
        records_of_kind_def run_docker_command_frame)
  have t: "task env command item_type st =
     (if lines = [] \<or> (length lines = 1 \<and> lines ! 0 = []) then st3
      else process_lines env item_type stats lines st3)"
    using ok by (simp add: task_def Let_def case_prod_beta st1_def st2_def st3_def stats_def lines_def)
  show ?thesis
  proof (cases "lines = [] \<or> (length lines = 1 \<and> lines ! 0 = [])")
    case True
    have "task env command item_type st = st3"
      by (simp only: t if_P [OF True])
    then have "tree (task env command item_type st) = records_of_kind ''project'' st @ []"
      using t3 by simp
    then show ?thesis by (intro exI [of _ "[]"]) simp
  next
    case False
    have "task env command item_type st = process_lines env item_type stats lines st3"
      by (simp only: t if_not_P [OF False])
    then show ?thesis using process_lines_rows [of env item_type stats lines st3] t3 by simp
  qed
qed

subsection \<open>The thread run alone is task\<close>






subsection \<open>The rows a refresh stores do not depend on the rows it finds\<close>

lemma run_docker_command_tree:
  "fst (run_docker_command env c (st\<lparr>tree := t\<rparr>)) = fst (run_docker_command env c st)"
  "snd (run_docker_command env c (st\<lparr>tree := t\<rparr>)) = (snd (run_docker_command env c st))\<lparr>tree := t\<rparr>"
  by (simp_all add: run_docker_command_def logging_def Let_def split: proc_result.splits)

lemma get_container_size_tree:
  "fst (get_container_size env cid (st\<lparr>tree := t\<rparr>)) = fst (get_container_size env cid st)"
  "snd (get_container_size env cid (st\<lparr>tree := t\<rparr>)) = (snd (get_container_size env cid st))\<lparr>tree := t\<rparr>"
  by (simp_all add: get_container_size_def run_docker_command_tree logging_def Let_def
      case_prod_beta)

lemma fetch_stats_tree:
  "fst (fetch_stats env item_type (st\<lparr>tree := t\<rparr>)) = fst (fetch_stats env item_type st)"
  "snd (fetch_stats env item_type (st\<lparr>tree := t\<rparr>)) = (snd (fetch_stats env item_type st))\<lparr>tree := t\<rparr>"
  by (simp_all add: fetch_stats_def run_docker_command_tree Let_def case_prod_beta)

lemma process_line_tree:
  "process_line env item_type stats line (st\<lparr>tree := t @ tree st\<rparr>) =
     (process_line env item_type stats line st)
       \<lparr>tree := t @ tree (process_line env item_type stats line st)\<rparr>"
  by (simp add: process_line_def tree_insert_def get_container_size_tree
      get_container_size_frame Let_def case_prod_beta)

lemma process_lines_tree:
  "process_lines env item_type stats lines (st\<lparr>tree := t @ tree st\<rparr>) =
     (process_lines env item_type stats lines st)
       \<lparr>tree := t @ tree (process_lines env item_type stats lines st)\<rparr>"
proof (induction lines arbitrary: st)
  case Nil
  show ?case by simp
next
  case (Cons line rest)
  define st1 where "st1 = process_line env item_type stats line st"
  have "process_lines env item_type stats (line # rest) (st\<lparr>tree := t @ tree st\<rparr>)
      = process_lines env item_type stats rest (st1\<lparr>tree := t @ tree st1\<rparr>)"
    by (simp add: process_line_tree st1_def)
  also have "\<dots> = (process_lines env item_type stats rest st1)
       \<lparr>tree := t @ tree (process_lines env item_type stats rest st1)\<rparr>"
    by (rule Cons.IH)
  finally show ?case by (simp add: st1_def)
qed

lemma task_tree:
  assumes "snd (returned (env (issued st) command)) = []"
  shows "tree (task env command item_type st) =
           records_of_kind ''project'' st @ tree (task env command item_type (st\<lparr>tree := []\<rparr>))"
proof -
  define e where "e = st\<lparr>tree := []\<rparr>"
  define out where "out = fst (fst (run_docker_command env command e))"
  define s1 where "s1 = snd (run_docker_command env command e)"
  define stats where "stats = fst (fetch_stats env item_type s1)"
  define s3 where "s3 = snd (fetch_stats env item_type s1)"
  define lines where "lines = split_on newline (strip out)"
  define p where "p = records_of_kind ''project'' st"
  have ok: "snd (fst (run_docker_command env command e)) = []"
    "snd (fst (run_docker_command env command st)) = []"
    using assms by (simp_all add: run_docker_command_fst e_def)
  have te: "tree s1 = []" "tree s3 = []"
    by (simp_all add: s1_def s3_def e_def run_docker_command_frame fetch_stats_frame)
  have es: "e\<lparr>tree := tree st\<rparr> = st" by (simp add: e_def)
  have r1: "fst (fst (run_docker_command env command st)) = out"
    "snd (run_docker_command env command st) = s1\<lparr>tree := tree st\<rparr>"
    using run_docker_command_tree [where env=env and c=command and st=e and t="tree st"]
    by (simp_all add: es out_def s1_def)
  have c: "clear_except_projects (s1\<lparr>tree := tree st\<rparr>) = s1\<lparr>tree := p\<rparr>"
    "clear_except_projects s1 = s1"
    using te by (simp_all add: clear_except_projects_def p_def records_of_kind_def)
  have f: "fst (fetch_stats env item_type (s1\<lparr>tree := p\<rparr>)) = stats"
    "snd (fetch_stats env item_type (s1\<lparr>tree := p\<rparr>)) = s3\<lparr>tree := p @ tree s3\<rparr>"
    using te by (simp_all add: fetch_stats_tree stats_def s3_def)
  have a: "task env command item_type st =
     (if lines = [] \<or> (length lines = 1 \<and> lines ! 0 = []) then s3\<lparr>tree := p @ tree s3\<rparr>
      else process_lines env item_type stats lines (s3\<lparr>tree := p @ tree s3\<rparr>))"
    using ok(2) by (simp add: task_def Let_def case_prod_beta r1 c f lines_def)
  have b: "task env command item_type e =
     (if lines = [] \<or> (length lines = 1 \<and> lines ! 0 = []) then s3
      else process_lines env item_type stats lines s3)"
    using ok(1)
    by (simp add: task_def Let_def case_prod_beta c [unfolded s1_def] lines_def out_def
        s3_def [unfolded s1_def] stats_def [unfolded s1_def])
  show ?thesis
  proof (cases "lines = [] \<or> (length lines = 1 \<and> lines ! 0 = [])")
    case True
    have "task env command item_type st = s3\<lparr>tree := p @ tree s3\<rparr>"
      by (simp only: a if_P [OF True])
    moreover have "task env command item_type e = s3"
      by (simp only: b if_P [OF True])
    ultimately show ?thesis by (simp add: p_def e_def)
  next
    case False
    have "task env command item_type st =
        process_lines env item_type stats lines (s3\<lparr>tree := p @ tree s3\<rparr>)"
      by (simp only: a if_not_P [OF False])
    moreover have "task env command item_type e = process_lines env item_type stats lines s3"
      by (simp only: b if_not_P [OF False])
    ultimately show ?thesis by (simp add: process_lines_tree p_def e_def)
  qed
qed

subsection \<open>One row for each accepted line of the listing\<close>

lemma listed_ids_Cons:
  "listed_ids item_type (line # rest) = listed_ids item_type [line] @ listed_ids item_type rest"
  by (simp add: listed_ids_def)

lemma process_line_ids:
  "map item_text (tree (process_line env item_type stats line st)) =
     map item_text (tree st) @ listed_ids item_type [line]"
  by (simp add: process_line_def tree_insert_def get_container_size_frame Let_def
      case_prod_beta listed_ids_def schema_fields_def id_index_def)

lemma process_lines_ids:
  "map item_text (tree (process_lines env item_type stats lines st)) =
     map item_text (tree st) @ listed_ids item_type lines"
proof (induction lines arbitrary: st)
  case Nil
  show ?case by (simp add: listed_ids_def)
next
  case (Cons line rest)
  show ?case
    by (simp add: Cons.IH process_line_ids) (simp add: listed_ids_Cons [of item_type line rest])
qed

lemma task_ids:
  assumes "snd (returned (env (issued st) command)) = []"
  shows "map item_text (tree (task env command item_type (st\<lparr>tree := []\<rparr>))) =
           listed_ids item_type
             (split_on newline (strip (fst (returned (env (issued st) command)))))"
proof -
  define e where "e = st\<lparr>tree := []\<rparr>"
  define lines where "lines = split_on newline (strip (fst (returned (env (issued st) command))))"
  define s3 where "s3 = snd (fetch_stats env item_type
      (clear_except_projects (snd (run_docker_command env command e))))"
  define stats where "stats = fst (fetch_stats env item_type
      (clear_except_projects (snd (run_docker_command env command e))))"
  have ok: "snd (fst (run_docker_command env command e)) = []"
    using assms by (simp add: run_docker_command_fst e_def)
  have out: "fst (fst (run_docker_command env command e)) = fst (returned (env (issued st) command))"
    by (simp add: run_docker_command_fst e_def)
  have t3: "tree s3 = []"
    by (simp add: s3_def e_def fetch_stats_frame clear_except_projects_def run_docker_command_frame)
  have b: "task env command item_type e =
     (if lines = [] \<or> (length lines = 1 \<and> lines ! 0 = []) then s3
      else process_lines env item_type stats lines s3)"
    using ok by (simp add: task_def Let_def case_prod_beta out lines_def s3_def stats_def)
  show ?thesis
  proof (cases "lines = [] \<or> (length lines = 1 \<and> lines ! 0 = [])")
    case True
    have "task env command item_type e = s3" by (simp only: b if_P [OF True])
    moreover have "listed_ids item_type lines = []"
      using True split_on_nonempty [of newline] 
      by (cases lines) (auto simp add: listed_ids_def lines_def)
    ultimately show ?thesis using t3 by (simp add: e_def lines_def)
  next
    case False
    have "task env command item_type e = process_lines env item_type stats lines s3"
      by (simp only: b if_not_P [OF False])
    then show ?thesis using t3 by (simp add: process_lines_ids e_def lines_def)
  qed
qed

lemma task_projects:
  "records_of_kind ''project'' (task env command item_type st) = records_of_kind ''project'' st"
proof (cases "snd (returned (env (issued st) command)) = []")
  case True
  obtain new where new: "tree (task env command item_type st) = records_of_kind ''project'' st @ new"
      "list_all (\<lambda>r. kind_col r = item_type \<and> kind_col r \<noteq> ''project'') new"
    using task_success_rows [of env st command item_type] True by blast
  have "filter (\<lambda>it. kind_col it = ''project'') new = []"
    using new(2) by (induction new) auto
  then show ?thesis using new(1) by (simp add: records_of_kind_def)
next
  case False
  have "snd (fst (run_docker_command env command st)) \<noteq> []"
    using False by (simp add: run_docker_command_fst)
  then have "tree (task env command item_type st) = tree st"
    by (simp add: task_def case_prod_beta execute_command_frame run_docker_command_frame)
  then show ?thesis by (simp add: records_of_kind_def)
qed

subsection \<open>A schedule that runs the threads one after the other\<close>




subsection \<open>C4: a refresh clears the rows of all three runtime types\<close>

text \<open>
  C4, as stated, fails: a successful refresh of the containers deletes the image row
  that was stored.
\<close>

theorem refresh_containers_drops_images:
  "records_of_kind ''image'' (task env_one containers_command ''container'' st_rows)
     \<noteq> records_of_kind ''image'' st_rows"
  by code_simp

text \<open>
  C4, amended. For every refresh whose listing command returns an empty \<open>stderr\<close>, the
  rows of type \<open>"project"\<close> are unchanged, and every row of the three runtime types is
  deleted, whichever type is refreshed: the Treeview afterwards holds the project rows
  followed by exactly the rows the refresh stores into an empty Treeview, none of the
  rows stored before. These rows are all of the refreshed type, and there is one for
  each accepted line of the listing, carrying the identifier of the line, in the order
  of the lines.
\<close>

theorem refresh_keeps_projects_only:
  assumes "snd (returned (env (issued st) command)) = []"
  shows "records_of_kind ''project'' (task env command item_type st) = records_of_kind ''project'' st
       \<and> tree (task env command item_type st) =
           records_of_kind ''project'' st @ tree (task env command item_type (st\<lparr>tree := []\<rparr>))
       \<and> list_all (\<lambda>r. kind_col r = item_type) (tree (task env command item_type (st\<lparr>tree := []\<rparr>)))
       \<and> map item_text (tree (task env command item_type (st\<lparr>tree := []\<rparr>))) =
           listed_ids item_type
             (split_on newline (strip (fst (returned (env (issued st) command)))))"
proof -
  have ok': "snd (returned (env (issued (st\<lparr>tree := []\<rparr>)) command)) = []"
    using assms by simp
  obtain new where new:
      "tree (task env command item_type (st\<lparr>tree := []\<rparr>)) =
         records_of_kind ''project'' (st\<lparr>tree := []\<rparr>) @ new"
      "list_all (\<lambda>r. kind_col r = item_type \<and> kind_col r \<noteq> ''project'') new"
    using task_success_rows [where env = env and st = "st\<lparr>tree := []\<rparr>"
        and command = command and item_type = item_type] ok'
    by blast
  have "tree (task env command item_type (st\<lparr>tree := []\<rparr>)) = new"
    using new(1) by (simp add: records_of_kind_def)
  then have "list_all (\<lambda>r. kind_col r = item_type)
      (tree (task env command item_type (st\<lparr>tree := []\<rparr>)))"
    using new(2) by (simp add: list_all_iff)
  moreover have "tree (task env command item_type st) =
      records_of_kind ''project'' st @ tree (task env command item_type (st\<lparr>tree := []\<rparr>))"
    using assms by (rule task_tree)
  moreover have "map item_text (tree (task env command item_type (st\<lparr>tree := []\<rparr>))) =
      listed_ids item_type (split_on newline (strip (fst (returned (env (issued st) command)))))"
    using assms by (rule task_ids)
  ultimately show ?thesis by (simp add: task_projects)
qed

theorem refresh_keeps_projects_only_witness:
  "records_of_kind ''project'' (task env_one containers_command ''container'' st_rows) = [project_row]
   \<and> tree (task env_one containers_command ''container'' st_rows) =
       [project_row] @ tree (task env_one containers_command ''container'' (st_rows\<lparr>tree := []\<rparr>))
   \<and> map item_text (tree (task env_one containers_command ''container'' (st_rows\<lparr>tree := []\<rparr>)))
       = [''abc123456789'']"
proof -
  have h: "snd (returned (env_one (issued st_rows) containers_command)) = []"
    by (simp add: env_one_def returned_def)
  have p: "records_of_kind ''project'' st_rows = [project_row]"
    by (simp add: records_of_kind_def st_rows_def st0_def project_row_def image_row_def)
  have l: "listed_ids ''container''
      (split_on newline (strip (fst (returned (env_one (issued st_rows) containers_command)))))
      = [''abc123456789'']"
    by code_simp
  show ?thesis
    using refresh_keeps_projects_only [where env = env_one and st = st_rows
        and command = containers_command and item_type = "''container''"] h p l
    by simp
qed

subsection \<open>C3: two refreshes that overlap can leave rows of both\<close>




subsection \<open>C5: one row for a container line of six fields\<close>

text \<open>
  C5. For every container line that \<open>split('|')\<close> cuts into exactly six fields (id,
  image, command, created, status, name), whatever the id is and so for every id of
  twelve or more alphanumeric characters, the line loop adds exactly one row to the
  Treeview; its text is the id, its type is \<open>"container"\<close>, and its status column is
  \<open>"Running"\<close> exactly when the status field contains \<open>Up\<close>, and \<open>"Stopped"\<close>
  exactly when it does not.
\<close>

theorem container_line_gives_one_row:
  assumes "split_on bar line = [container_id, image_ref, command, created_at, status_full, name]"
  shows "\<exists>r. tree (process_line env ''container'' stats line st) = tree st @ [r]
            \<and> item_text r = container_id
            \<and> kind_col r = ''container''
            \<and> (cols r ! 1 = ''Running'') = (\<exists>pre suf. status_full = pre @ ''Up'' @ suf)
            \<and> (cols r ! 1 = ''Stopped'') = (\<not> (\<exists>pre suf. status_full = pre @ ''Up'' @ suf))"
proof -
  have ne: "line \<noteq> []" using assms by auto
  have up: "(\<exists>pre suf. status_full = pre @ ''Up'' @ suf) = str_contains ''Up'' status_full"
    by (simp only: str_contains_iff)
  show ?thesis
    unfolding up using assms ne
    by (simp add: process_line_def tree_insert_def get_container_size_frame Let_def
        case_prod_beta)
qed

theorem container_line_gives_one_row_witness:
  \<open>\<exists>r. tree (process_line env_one ''container'' Map.empty
            ''abc123456789|nginx:latest|"nginx -g daemon off;"|2024-01-01|Up 3 hours|web1'' st0)
          = tree st0 @ [r]
       \<and> item_text r = ''abc123456789''
       \<and> kind_col r = ''container''
       \<and> (cols r ! 1 = ''Running'') = (\<exists>pre suf. ''Up 3 hours'' = pre @ ''Up'' @ suf)
       \<and> (cols r ! 1 = ''Stopped'') = (\<not> (\<exists>pre suf. ''Up 3 hours'' = pre @ ''Up'' @ suf))\<close>
proof -
  have h: \<open>split_on bar
      ''abc123456789|nginx:latest|"nginx -g daemon off;"|2024-01-01|Up 3 hours|web1''
    = [''abc123456789'', ''nginx:latest'', ''"nginx -g daemon off;"'', ''2024-01-01'',
       ''Up 3 hours'', ''web1'']\<close>
    by simp
  show ?thesis
    by (rule container_line_gives_one_row [OF h])
qed

subsection \<open>C6: a line with too few fields is passed over without a word\<close>

text \<open>
  C6, as stated, fails on "reports exactly one ParseError": a container line of two
  fields leaves nothing in the log, in a message box or in the output box.
\<close>

theorem short_line_reports_nothing:
  "length (reports st0 (process_line env_one ''container'' Map.empty ''abc123456789|nginx'' st0)) \<noteq> 1"
  by (simp add: process_line_def reports_def)

text \<open>
  C6, amended. For every line with fewer fields than its type asks for (6 for
  containers, 5 for images, 4 for networks), the line loop returns the state as it
  received it: no row is added and nothing is reported (no log record, no message box,
  no output text); the loop goes on with the remaining lines, and no step of it can
  raise.
\<close>

theorem short_line_is_skipped:
  assumes "length (split_on bar line) < schema_fields item_type"
  shows "process_line env item_type stats line st = st
       \<and> reports st (process_line env item_type stats line st) = []
       \<and> process_lines env item_type stats (line # rest) st
           = process_lines env item_type stats rest st"
  using process_line_short [OF assms] by (simp add: reports_def)

theorem short_line_is_skipped_witness:
  "process_line env_one ''image'' Map.empty ''nginx|latest|0123456789ab'' st0 = st0
   \<and> reports st0 (process_line env_one ''image'' Map.empty ''nginx|latest|0123456789ab'' st0) = []
   \<and> process_lines env_one ''image'' Map.empty [''nginx|latest|0123456789ab''] st0
       = process_lines env_one ''image'' Map.empty [] st0"
proof -
  have h: "length (split_on bar ''nginx|latest|0123456789ab'') < schema_fields ''image''"
    by (simp add: schema_fields_def)
  show ?thesis
    by (rule short_line_is_skipped [OF h])
qed

subsection \<open>Lemmas on a sequence of commands\<close>

lemma execute_all_issued: "issued (execute_all env cmds st) = issued st @ cmds"
  by (induction cmds arbitrary: st) (simp_all add: execute_command_frame)

lemma execute_all_logged: "\<exists>new. logged (execute_all env cmds st) = logged st @ new"
proof (induction cmds arbitrary: st)
  case Nil
  then show ?case by simp
next
  case (Cons c rest)
  obtain n1 where "logged (execute_command env c st) = logged st @ n1"
    using execute_command_logged by blast
  moreover obtain n2 where "logged (execute_all env rest (execute_command env c st))
      = logged (execute_command env c st) @ n2"
    using Cons.IH by blast
  ultimately have "logged (execute_all env (c # rest) st) = logged st @ (n1 @ n2)" by simp
  then show ?case by blast
qed

lemma execute_all_box: "\<exists>more. output_box (execute_all env cmds st) = output_box st @ more"
proof (induction cmds arbitrary: st)
  case Nil
  then show ?case by simp
next
  case (Cons c rest)
  obtain m1 where "output_box (execute_command env c st) = output_box st @ m1"
    using execute_command_box [of env c st] by simp
  moreover obtain m2 where "output_box (execute_all env rest (execute_command env c st))
      = output_box (execute_command env c st) @ m2"
    using Cons.IH by blast
  ultimately have "output_box (execute_all env (c # rest) st) = output_box st @ (m1 @ m2)" by simp
  then show ?case by blast
qed

lemma execute_all_error_logged:
  assumes "i < length cmds"
    and "snd (returned (step_result env (issued st) cmds i)) \<noteq> []"
  shows "(ERROR, ''Command '' @ [squote] @ cmds ! i @ [squote] @ '' failed with error: ''
            @ strip (snd (returned (step_result env (issued st) cmds i))))
          \<in> set (logged (execute_all env cmds st))"
  using assms
proof (induction cmds arbitrary: st i)
  case Nil
  then show ?case by simp
next
  case (Cons c rest)
  show ?case
  proof (cases i)
    case 0
    then have "snd (returned (env (issued st) c)) \<noteq> []"
      using Cons.prems(2) by (simp add: step_result_def)
    then have "(ERROR, ''Command '' @ [squote] @ c @ [squote] @ '' failed with error: ''
            @ strip (snd (returned (env (issued st) c)))) \<in> set (logged (execute_command env c st))"
      by (rule execute_command_error_logged)
    moreover obtain new where "logged (execute_all env rest (execute_command env c st))
        = logged (execute_command env c st) @ new"
      using execute_all_logged by blast
    ultimately show ?thesis using 0 by (simp add: step_result_def)
  next
    case (Suc j)
    have eq: "step_result env (issued st) (c # rest) (Suc j)
        = step_result env (issued (execute_command env c st)) rest j"
      by (simp add: step_result_def execute_command_frame)
    have "j < length rest" using Cons.prems(1) Suc by simp
    moreover have "snd (returned (step_result env (issued (execute_command env c st)) rest j)) \<noteq> []"
      using Cons.prems(2) Suc eq by simp
    ultimately have "(ERROR, ''Command '' @ [squote] @ rest ! j @ [squote] @ '' failed with error: ''
            @ strip (snd (returned (step_result env (issued (execute_command env c st)) rest j))))
          \<in> set (logged (execute_all env rest (execute_command env c st)))"
      by (rule Cons.IH)
    then show ?thesis using Suc eq by simp
  qed
qed

lemma execute_all_nonzero_logged:
  assumes "i < length cmds"
    and "step_result env (issued st) cmds i = Exited out err rc" and "rc \<noteq> 0"
  shows "(ERROR, ''Command failed: '' @ cmds ! i @ [newline] @ ''Error: '' @ strip err)
          \<in> set (logged (execute_all env cmds st))"
  using assms
proof (induction cmds arbitrary: st i)
  case Nil
  then show ?case by simp
next
  case (Cons c rest)
  show ?case
  proof (cases i)
    case 0
    then have "env (issued st) c = Exited out err rc"
      using Cons.prems(2) by (simp add: step_result_def)
    then have "(ERROR, ''Command failed: '' @ c @ [newline] @ ''Error: '' @ strip err)
        \<in> set (logged (execute_command env c st))"
      using Cons.prems(3) by (rule execute_command_nonzero_logged)
    moreover obtain new where "logged (execute_all env rest (execute_command env c st))
        = logged (execute_command env c st) @ new"
      using execute_all_logged by blast
    ultimately show ?thesis using 0 by simp
  next
    case (Suc j)
    have eq: "step_result env (issued st) (c # rest) (Suc j)
        = step_result env (issued (execute_command env c st)) rest j"
      by (simp add: step_result_def execute_command_frame)
    have "j < length rest" using Cons.prems(1) Suc by simp
    moreover have "step_result env (issued (execute_command env c st)) rest j = Exited out err rc"
      using Cons.prems(2) Suc eq by simp
    ultimately have "(ERROR, ''Command failed: '' @ rest ! j @ [newline] @ ''Error: '' @ strip err)
          \<in> set (logged (execute_all env rest (execute_command env c st)))"
      using Cons.prems(3) by (rule Cons.IH)
    then show ?thesis using Suc by simp
  qed
qed

lemma execute_all_error_shown:
  assumes "i < length cmds"
    and "snd (returned (step_result env (issued st) cmds i)) \<noteq> []"
  shows "\<exists>before mid after. output_box (execute_all env cmds st) =
           output_box st @ before @ ''$ '' @ cmds ! i @ [newline] @ mid
             @ ''Error: '' @ snd (returned (step_result env (issued st) cmds i)) @ [newline]
             @ after"
  using assms
proof (induction cmds arbitrary: st i)
  case Nil
  then show ?case by simp
next
  case (Cons c rest)
  show ?case
  proof (cases i)
    case 0
    have ne: "snd (returned (env (issued st) c)) \<noteq> []"
      using Cons.prems(2) 0 by (simp add: step_result_def)
    obtain mid where b1: "output_box (execute_command env c st) =
        output_box st @ ''$ '' @ c @ [newline] @ mid
          @ ''Error: '' @ snd (returned (env (issued st) c)) @ [newline]"
      using ne execute_command_box [of env c st] by simp
    obtain more where "output_box (execute_all env rest (execute_command env c st))
        = output_box (execute_command env c st) @ more"
      using execute_all_box by blast
    then have "output_box (execute_all env (c # rest) st) =
        output_box st @ [] @ ''$ '' @ (c # rest) ! 0 @ [newline] @ mid
          @ ''Error: '' @ snd (returned (step_result env (issued st) (c # rest) 0)) @ [newline]
          @ more"
      using b1 by (simp add: step_result_def)
    then show ?thesis unfolding 0 by blast
  next
    case (Suc j)
    have eq: "step_result env (issued st) (c # rest) (Suc j)
        = step_result env (issued (execute_command env c st)) rest j"
      by (simp add: step_result_def execute_command_frame)
    have "j < length rest" using Cons.prems(1) Suc by simp
    moreover have "snd (returned (step_result env (issued (execute_command env c st)) rest j)) \<noteq> []"
      using Cons.prems(2) Suc eq by simp
    ultimately obtain before mid after where
      ih: "output_box (execute_all env rest (execute_command env c st)) =
           output_box (execute_command env c st) @ before @ ''$ '' @ rest ! j @ [newline] @ mid
             @ ''Error: ''
             @ snd (returned (step_result env (issued (execute_command env c st)) rest j))
             @ [newline] @ after"
      using Cons.IH by blast
    obtain m1 where "output_box (execute_command env c st) = output_box st @ m1"
      using execute_command_box [of env c st] by simp
    then have "output_box (execute_all env (c # rest) st) =
           output_box st @ (m1 @ before) @ ''$ '' @ (c # rest) ! Suc j @ [newline] @ mid
             @ ''Error: '' @ snd (returned (step_result env (issued st) (c # rest) (Suc j)))
             @ [newline] @ after"
      using ih eq by simp
    then show ?thesis unfolding Suc by blast
  qed
qed

lemma refresh_frame:
  "issued (refresh_containers st) = issued st"
  "issued (refresh_images st) = issued st"
  "logged (refresh_containers st) = logged st"
  "logged (refresh_images st) = logged st"
  "output_box (refresh_containers st) = output_box st"
  "output_box (refresh_images st) = output_box st"
  by (simp_all add: refresh_containers_def refresh_images_def list_docker_items_def start_thread_def)

subsection \<open>C8: the three commands of a rebuild all run; a failure by exit code alone is not reported\<close>

text \<open>
  What holds for every rebuild and every behaviour of the runtime: the commands started
  are exactly \<open>docker stop\<close>, \<open>docker rm\<close> and \<open>docker run -d --name\<close>, in that
  order, and no result of a step stops the following ones. A step for which
  \<open>run_docker_command\<close> returns a non-empty \<open>stderr\<close> leaves the ERROR record naming
  the command in the log and its \<open>Error:\<close> line in the output box; a step that exits
  with a non-zero code leaves the ERROR record \<open>Command failed\<close> in the log.
\<close>

lemma rebuild_runs_all_steps:
  "issued (rebuild_container_thread env container_id image_name st) =
     issued st @ [''docker stop '' @ container_id,
                  ''docker rm '' @ container_id,
                  ''docker run -d --name '' @ container_id @ '' '' @ image_name]
   \<and> (\<forall>i<3.
        let cmds = rebuild_commands container_id image_name;
            r = step_result env (issued st) cmds i;
            st' = rebuild_container_thread env container_id image_name st
        in (snd (returned r) \<noteq> [] \<longrightarrow>
              (ERROR, ''Command '' @ [squote] @ cmds ! i @ [squote] @ '' failed with error: ''
                        @ strip (snd (returned r))) \<in> set (logged st')
              \<and> (\<exists>before mid after. output_box st' =
                    output_box st @ before @ ''$ '' @ cmds ! i @ [newline] @ mid
                      @ ''Error: '' @ snd (returned r) @ [newline] @ after))
         \<and> (\<forall>out err rc. r = Exited out err rc \<and> rc \<noteq> 0 \<longrightarrow>
              (ERROR, ''Command failed: '' @ cmds ! i @ [newline] @ ''Error: '' @ strip err)
                \<in> set (logged st')))"
proof -
  have len: "length (rebuild_commands container_id image_name) = 3"
    by (simp add: rebuild_commands_def)
  have "issued (rebuild_container_thread env container_id image_name st) =
     issued st @ [''docker stop '' @ container_id,
                  ''docker rm '' @ container_id,
                  ''docker run -d --name '' @ container_id @ '' '' @ image_name]"
    by (simp add: rebuild_container_thread_def refresh_frame execute_command_frame
        rebuild_commands_def)
  moreover have "\<forall>i<3.
        let cmds = rebuild_commands container_id image_name;
            r = step_result env (issued st) cmds i;
            st' = rebuild_container_thread env container_id image_name st
        in (snd (returned r) \<noteq> [] \<longrightarrow>
              (ERROR, ''Command '' @ [squote] @ cmds ! i @ [squote] @ '' failed with error: ''
                        @ strip (snd (returned r))) \<in> set (logged st')
              \<and> (\<exists>before mid after. output_box st' =
                    output_box st @ before @ ''$ '' @ cmds ! i @ [newline] @ mid
                      @ ''Error: '' @ snd (returned r) @ [newline] @ after))
         \<and> (\<forall>out err rc. r = Exited out err rc \<and> rc \<noteq> 0 \<longrightarrow>
              (ERROR, ''Command failed: '' @ cmds ! i @ [newline] @ ''Error: '' @ strip err)
                \<in> set (logged st'))"
  proof (intro allI impI)
    fix i :: nat
    assume "i < 3"
    then have i: "i < length (rebuild_commands container_id image_name)" using len by simp
    show "let cmds = rebuild_commands container_id image_name;
            r = step_result env (issued st) cmds i;
            st' = rebuild_container_thread env container_id image_name st
        in (snd (returned r) \<noteq> [] \<longrightarrow>
              (ERROR, ''Command '' @ [squote] @ cmds ! i @ [squote] @ '' failed with error: ''
                        @ strip (snd (returned r))) \<in> set (logged st')
              \<and> (\<exists>before mid after. output_box st' =
                    output_box st @ before @ ''$ '' @ cmds ! i @ [newline] @ mid
                      @ ''Error: '' @ snd (returned r) @ [newline] @ after))
         \<and> (\<forall>out err rc. r = Exited out err rc \<and> rc \<noteq> 0 \<longrightarrow>
              (ERROR, ''Command failed: '' @ cmds ! i @ [newline] @ ''Error: '' @ strip err)
                \<in> set (logged st'))"
      unfolding Let_def rebuild_container_thread_def refresh_frame
      using execute_all_error_logged [OF i, of env st]
        execute_all_error_shown [OF i, of env st]
        execute_all_nonzero_logged [OF i, of env st]
      by blast
  qed
  ultimately show ?thesis by blast
qed

lemma rebuild_runs_all_steps_example:
  "issued (rebuild_container_thread env_down ''abc123456789'' ''nginx:latest'' st0) =
     [''docker stop abc123456789'', ''docker rm abc123456789'',
      ''docker run -d --name abc123456789 nginx:latest'']
   \<and> (ERROR, ''Command failed: docker stop abc123456789'' @ [newline]
               @ ''Error: Cannot connect to the Docker daemon'')
       \<in> set (logged (rebuild_container_thread env_down ''abc123456789'' ''nginx:latest'' st0))"
proof -
  note t = rebuild_runs_all_steps [of env_down "''abc123456789''" "''nginx:latest''" st0]
  have s: "strip ''Cannot connect to the Docker daemon'' = ''Cannot connect to the Docker daemon''"
    by (simp add: strip_def strip_with_def is_space_def)
  have r: "step_result env_down (issued st0) (rebuild_commands ''abc123456789'' ''nginx:latest'') 0
      = Exited [] ''Cannot connect to the Docker daemon'' 1"
    by (simp add: step_result_def env_down_def)
  from t have a: "issued (rebuild_container_thread env_down ''abc123456789'' ''nginx:latest'' st0) =
     issued st0 @ [''docker stop '' @ ''abc123456789'', ''docker rm '' @ ''abc123456789'',
        ''docker run -d --name '' @ ''abc123456789'' @ '' '' @ ''nginx:latest'']"
    by (rule conjunct1)
  from t have "(ERROR, ''Command failed: ''
        @ rebuild_commands ''abc123456789'' ''nginx:latest'' ! 0 @ [newline] @ ''Error: ''
        @ strip ''Cannot connect to the Docker daemon'')
       \<in> set (logged (rebuild_container_thread env_down ''abc123456789'' ''nginx:latest'' st0))"
    unfolding Let_def using r by (metis zero_less_numeral zero_neq_one)
  then show ?thesis using a s by (simp add: rebuild_commands_def st0_def)
qed

text \<open>
  C8. The claim asks that the first failing step of a rebuild be recorded and reported.
  With a runtime whose commands exit with code 1 and write nothing, the three commands
  run in order, but \<open>execute_command\<close> tests \<open>stderr\<close> alone: the output box shows the
  three command lines and no \<open>Error:\<close> line, no message box is shown, and for each
  command the log holds the record \<open>executed successfully\<close> after the
  \<open>Command failed\<close> record of \<open>run_docker_command\<close>. The failure of \<open>docker stop\<close>
  is reported nowhere the operator looks.
\<close>

theorem rebuild_exit_failure_not_reported:
  "issued (rebuild_container_thread env_silent ''abc123456789'' ''nginx:latest'' st0) =
     [''docker stop abc123456789'', ''docker rm abc123456789'',
      ''docker run -d --name abc123456789 nginx:latest'']
   \<and> output_box (rebuild_container_thread env_silent ''abc123456789'' ''nginx:latest'' st0) =
       ''$ docker stop abc123456789'' @ [newline] @ ''$ docker rm abc123456789'' @ [newline]
         @ ''$ docker run -d --name abc123456789 nginx:latest'' @ [newline]
   \<and> dialogs (rebuild_container_thread env_silent ''abc123456789'' ''nginx:latest'' st0) = []
   \<and> take 3 (logged (rebuild_container_thread env_silent ''abc123456789'' ''nginx:latest'' st0)) =
       [(DEBUG, ''Executing command: docker stop abc123456789''),
        (ERROR, ''Command failed: docker stop abc123456789'' @ [newline] @ ''Error: ''),
        (INFO, ''Command '' @ [squote] @ ''docker stop abc123456789'' @ [squote]
                 @ '' executed successfully.'')]"
  by code_simp

subsection \<open>C9: a name already listed stops the copy before any thread is started\<close>

lemma selected_item_frame:
  "tree (snd (selected_item focus st)) = tree st"
  "issued (snd (selected_item focus st)) = issued st"
  "threads (snd (selected_item focus st)) = threads st"
  by (simp_all add: selected_item_def messagebox_def logging_def Let_def split: option.splits)

lemma selected_item_dialogs:
  assumes "fst (selected_item focus st) = Some sel"
  shows "dialogs (snd (selected_item focus st)) = dialogs st"
  using assms
  by (cases focus)
     (auto simp add: selected_item_def messagebox_def logging_def Let_def split: if_splits)

lemma strip_Nil: "strip [] = []"
  by (simp add: strip_def strip_with_def)

lemma copy_container_thread_issued:
  "issued (copy_container_thread env container_id new_container_name st) =
     issued st @ [''docker commit '' @ container_id @ '' backup_'' @ container_id,
                  ''docker create --name '' @ new_container_name @ '' backup_'' @ container_id]"
  by (simp add: copy_container_thread_def Let_def logging_def messagebox_def refresh_frame
      refresh_containers_def refresh_images_def list_docker_items_def start_thread_def
      execute_command_frame)

text \<open>
  C9. For every copy of a selected target under a non-blank new name, when the name is
  one of the lines of the listing that \<open>copy_container\<close> has just obtained from the
  runtime with \<open>docker ps -a --format "{{.Names}}"\<close> (the Treeview is not consulted),
  the function shows the \<open>Name Conflict\<close> error and returns: the listing is the only
  command started, no thread is started, so neither \<open>docker commit\<close> nor
  \<open>docker create\<close> runs, and the Treeview is as before.
\<close>

theorem copy_name_conflict_starts_nothing:
  assumes "fst (selected_item focus st) = Some (container_id, item_type)"
    and "container_id \<noteq> []"
    and "strip new_container_name \<noteq> []"
    and "new_container_name
           \<in> set (split_on newline (strip (fst (returned (env (issued st) names_command)))))"
  shows "issued (copy_container env focus (Some new_container_name) st)
           = issued st @ [names_command]
       \<and> threads (copy_container env focus (Some new_container_name) st) = threads st
       \<and> tree (copy_container env focus (Some new_container_name) st) = tree st
       \<and> dialogs (copy_container env focus (Some new_container_name) st)
           = dialogs st @ [(Showerror, ''Name Conflict'',
                ''A container with the name '' @ [squote] @ new_container_name @ [squote]
                  @ '' already exists.'')]"
proof -
  define st1 where "st1 = snd (selected_item focus st)"
  define st2 where "st2 = snd (run_docker_command env names_command st1)"
  have sel: "selected_item focus st = (Some (container_id, item_type), st1)"
    using assms(1) by (simp add: st1_def prod_eq_iff)
  have ne: "new_container_name \<noteq> []"
    using assms(3) strip_Nil by auto
  have i1: "issued st1 = issued st"
    by (simp add: st1_def selected_item_frame)
  have listed: "new_container_name
      \<in> set (split_on newline (strip (fst (fst (run_docker_command env names_command st1)))))"
    using assms(4) by (simp add: run_docker_command_fst i1)
  have c: "copy_container env focus (Some new_container_name) st =
      messagebox Showerror ''Name Conflict''
        (''A container with the name '' @ [squote] @ new_container_name @ [squote]
           @ '' already exists.'') st2"
    using sel assms(2) assms(3) ne listed
    by (simp add: copy_container_def Let_def case_prod_beta st2_def)
  have "issued st2 = issued st @ [names_command]" "threads st2 = threads st"
    "tree st2 = tree st" "dialogs st2 = dialogs st"
    using selected_item_dialogs [OF assms(1)]
    by (simp_all add: st2_def st1_def run_docker_command_frame selected_item_frame)
  then show ?thesis
    unfolding c by (simp add: messagebox_def)
qed

theorem copy_name_conflict_starts_nothing_witness:
  "issued (copy_container env_one (Some container_row) (Some ''web'') st0) = [names_command]
   \<and> threads (copy_container env_one (Some container_row) (Some ''web'') st0) = []
   \<and> dialogs (copy_container env_one (Some container_row) (Some ''web'') st0)
       = [(Showerror, ''Name Conflict'',
           ''A container with the name '' @ [squote] @ ''web'' @ [squote] @ '' already exists.'')]"
proof -
  have v: "validate_docker_id ''abc123456789''"
    by (simp add: validate_docker_id_def is_id_char_def dollar_at_def)
  have h1: "fst (selected_item (Some container_row) st0) = Some (''abc123456789'', ''container'')"
    using v by (simp add: selected_item_def container_row_def Let_def)
  have h2: "''abc123456789'' \<noteq> []" by simp
  have h3: "strip ''web'' \<noteq> []"
    by (simp add: strip_def strip_with_def is_space_def)
  have h4: "''web'' \<in> set (split_on newline
      (strip (fst (returned (env_one (issued st0) names_command)))))"
    by (simp add: env_one_def names_command_def containers_command_def stats_command_def
        returned_def strip_def strip_with_def is_space_def)
  show ?thesis
    using copy_name_conflict_starts_nothing [of "Some container_row" st0 "''abc123456789''"
        "''container''" "''web''" env_one] h1 h2 h3 h4
    by (simp add: st0_def)
qed

end
